theory Spec2Isabelle
  imports Main "HOL-Library.Word"
begin

section \<open>Result decoding of the MySQL connector: the data model\<close>

text \<open>
  The development follows \<^verbatim>\<open>src/common/result.h\<close> (meta-data, value conversion,
  rows, the result object) and \<^verbatim>\<open>src/connector/result.cc\<close> (the older
  \<^verbatim>\<open>Result::Impl\<close>). Exceptions, assertion failures and reads past a buffer are
  values of the type \<open>error\<close>; a function that can raise returns \<open>error + 'a\<close>.
\<close>

type_synonym byte = "8 word"
type_synonym bytes = "byte list"

datatype error =
    Out_of_range string        \<comment> \<open>\<^verbatim>\<open>std::out_of_range\<close>, with its message\<close>
  | Error string               \<comment> \<open>\<^verbatim>\<open>THROW(msg)\<close>\<close>
  | Thrown string              \<comment> \<open>\<^verbatim>\<open>throw "msg"\<close> of a string literal\<close>
  | Assertion_failed string    \<comment> \<open>a failed \<^verbatim>\<open>assert\<close>\<close>
  | Bad_variant_access         \<comment> \<open>a variant read with a tag it does not hold\<close>
  | Undefined_behaviour string \<comment> \<open>a read outside a buffer\<close>
  | Codec_error string         \<comment> \<open>whatever a codec of cdk raises\<close>
  | Unspecified string         \<comment> \<open>a result that depends on the platform; the model gives none\<close>

text \<open>
  Modelled from the spec: the enumeration \<^verbatim>\<open>cdk::Type_info\<close>, the wire type of a
  column, is declared in cdk, outside the sources. The eight named constants are the
  ones the sources use. \<open>TYPE_OTHER n\<close> is the spec's unrecognized type, a type code
  \<open>n\<close> that is none of them: the sources provide for it in the \<^verbatim>\<open>default\<close>
  branches of \<^verbatim>\<open>Meta_data::Meta_data\<close> and of \<^verbatim>\<open>Result::Impl::getString\<close>.
\<close>

datatype Type_info =
    TYPE_INTEGER | TYPE_FLOAT | TYPE_STRING | TYPE_DATETIME
  | TYPE_BYTES | TYPE_DOCUMENT | TYPE_GEOMETRY | TYPE_XML
  | TYPE_OTHER nat

text \<open>
  Modelled from the spec: the macro \<^verbatim>\<open>CDK_TYPE_LIST\<close> is declared in cdk, outside the
  sources. It lists the wire types of the glossary (string, integer, float, document,
  bytes, datetime, geometry, xml); each entry \<open>T\<close> must have a \<^verbatim>\<open>Format_descr<T>\<close> in
  the variant of \<^verbatim>\<open>Format_info\<close>, which has exactly these eight.
\<close>

definition CDK_TYPE_LIST :: "Type_info list" where
  "CDK_TYPE_LIST =
     [TYPE_INTEGER, TYPE_FLOAT, TYPE_STRING, TYPE_DATETIME,
      TYPE_BYTES, TYPE_DOCUMENT, TYPE_GEOMETRY, TYPE_XML]"

subsection \<open>Values\<close>

text \<open>
  Modelled from the spec: the class \<^verbatim>\<open>Value\<close> is declared in \<^verbatim>\<open>value.h\<close>, outside the
  sources. The sources use its default constructor (the NULL value), its constructor
  from a byte range (a raw-bytes value holding a copy of the bytes), \<^verbatim>\<open>get_type()\<close>
  with the kinds \<^verbatim>\<open>RAW\<close>, \<^verbatim>\<open>STRING\<close> and \<^verbatim>\<open>VNULL\<close> named, and the member
  \<^verbatim>\<open>m_str\<close>. \<open>VNATIVE\<close> stands for every other kind (a decoded number or document);
  \<open>m_val\<close> is the decoded native value, of a type \<open>'n\<close> left open.
\<close>

datatype Value_type = VNULL | RAW | STRING | VNATIVE

record 'n Value =
  get_type :: Value_type
  m_str :: bytes
  m_val :: "'n option"

text \<open>Modelled from the spec: the default constructor, the NULL value.\<close>

definition Value_null :: "'n Value" where
  "Value_null = \<lparr>get_type = VNULL, m_str = [], m_val = None\<rparr>"

text \<open>Modelled from the spec: the constructor from a byte range, a raw-bytes value.\<close>

definition Value_raw :: "bytes \<Rightarrow> 'n Value" where
  "Value_raw bs = \<lparr>get_type = RAW, m_str = bs, m_val = None\<rparr>"

subsection \<open>Format descriptors\<close>

text \<open>
  \<^verbatim>\<open>Format_descr<T>\<close>: the format (and codec) built from the transport's format-info
  object, of a type \<open>'f\<close> left open. The descriptors of GEOMETRY and XML store nothing.
  The datatype is the variant \<^verbatim>\<open>Format_info::Format_info_storage\<close>.
\<close>

datatype 'f Format_descr =
    FD_STRING 'f | FD_INTEGER 'f | FD_FLOAT 'f | FD_DOCUMENT 'f
  | FD_BYTES 'f | FD_DATETIME 'f | FD_GEOMETRY | FD_XML

fun descr_type :: "'f Format_descr \<Rightarrow> Type_info" where
  "descr_type (FD_STRING _) = TYPE_STRING"
| "descr_type (FD_INTEGER _) = TYPE_INTEGER"
| "descr_type (FD_FLOAT _) = TYPE_FLOAT"
| "descr_type (FD_DOCUMENT _) = TYPE_DOCUMENT"
| "descr_type (FD_BYTES _) = TYPE_BYTES"
| "descr_type (FD_DATETIME _) = TYPE_DATETIME"
| "descr_type FD_GEOMETRY = TYPE_GEOMETRY"
| "descr_type FD_XML = TYPE_XML"

text \<open>
  What the sources take from cdk: the pad width of a bytes format and the four typed
  overloads of \<^verbatim>\<open>convert\<close>, which are declared in \<^verbatim>\<open>result.h\<close> and defined outside
  the sources. They are parameters of the model; each may raise.
\<close>

record ('f, 'n) cdk =
  pad_width :: "'f \<Rightarrow> nat"
  convert_STRING :: "bytes \<Rightarrow> 'f \<Rightarrow> error + 'n Value"
  convert_INTEGER :: "bytes \<Rightarrow> 'f \<Rightarrow> error + 'n Value"
  convert_FLOAT :: "bytes \<Rightarrow> 'f \<Rightarrow> error + 'n Value"
  convert_DOCUMENT :: "bytes \<Rightarrow> 'f \<Rightarrow> error + 'n Value"

subsection \<open>Column meta-data\<close>

text \<open>
  Modelled from the spec: the column-info object of the transport,
  \<^verbatim>\<open>cdk::Column_info\<close>, is declared outside the sources. It exposes the original and
  the display name, the owning table and schema (either may be absent), the length, the
  decimals and the collation, which is what \<open>store_info\<close> reads from it.
\<close>

record cdk_Schema_ref =
  schema_name :: string

record cdk_Table_ref =
  table_orig_name :: string
  table_name :: string
  table_schema :: "cdk_Schema_ref option"

record cdk_Column_info =
  ci_orig_name :: string
  ci_name :: string
  ci_table :: "cdk_Table_ref option"
  ci_collation :: nat
  ci_length :: nat
  ci_decimals :: nat

text \<open>
  \<^verbatim>\<open>Column_info<STR>\<close>, with the members of its base \<^verbatim>\<open>Format_info\<close> (\<open>m_type\<close>,
  \<open>m_fmt\<close>) first.
\<close>

record 'f Column_info =
  m_type :: Type_info
  m_fmt :: "'f Format_descr"
  m_name :: string
  m_label :: string
  m_table_name :: string
  m_table_label :: string
  m_schema_name :: string
  m_length :: nat
  m_decimals :: nat
  m_collation :: nat
  m_padded :: bool

text \<open>
  The two constructors of \<^verbatim>\<open>Column_info\<close>: from a \<^verbatim>\<open>Format_descr<T>\<close> (the type is
  the descriptor's), and from a type and a format-info object for a column whose values
  are stored as raw bytes (the descriptor is a bytes descriptor whatever the type).
  \<open>m_padded\<close> starts false; the numeric members are not initialised by the source and
  are written by \<open>store_info\<close> before anything reads them.
\<close>

definition Column_info_of_descr :: "'f Format_descr \<Rightarrow> 'f Column_info" where
  "Column_info_of_descr fd =
     \<lparr>m_type = descr_type fd, m_fmt = fd, m_name = [], m_label = [], m_table_name = [],
      m_table_label = [], m_schema_name = [], m_length = 0, m_decimals = 0,
      m_collation = 0, m_padded = False\<rparr>"

definition Column_info_raw :: "Type_info \<Rightarrow> 'f \<Rightarrow> 'f Column_info" where
  "Column_info_raw ty fi =
     \<lparr>m_type = ty, m_fmt = FD_BYTES fi, m_name = [], m_label = [], m_table_name = [],
      m_table_label = [], m_schema_name = [], m_length = 0, m_decimals = 0,
      m_collation = 0, m_padded = False\<rparr>"

text \<open>
  \<^verbatim>\<open>Format_info::get<T>()\<close>: the descriptor, when the variant holds the one of type
  \<open>T\<close>.
\<close>

definition get_descr :: "Type_info \<Rightarrow> 'f Column_info \<Rightarrow> error + 'f Format_descr" where
  "get_descr T fi = (if descr_type (m_fmt fi) = T then Inr (m_fmt fi) else Inl Bad_variant_access)"

text \<open>
  \<^verbatim>\<open>Column_info::store_info\<close>. The macro \<^verbatim>\<open>ASSERT_NUM_LIMITS\<close> is declared outside
  the sources; by its name and its use it asserts that the decimals fit the target type
  \<^verbatim>\<open>unsigned short\<close>. In the bytes branch \<open>m_padded\<close> is set before the assertion on
  the length is evaluated.
\<close>

definition store_info ::
  "('f, 'n) cdk \<Rightarrow> cdk_Column_info \<Rightarrow> 'f Column_info \<Rightarrow> error + 'f Column_info" where
  "store_info env ci c =
     (let c1 = c\<lparr>m_name := ci_orig_name ci, m_label := ci_name ci\<rparr>;
          c2 = (case ci_table ci of
                  None \<Rightarrow> c1
                | Some t \<Rightarrow>
                    (let c1' = c1\<lparr>m_table_name := table_orig_name t,
                                   m_table_label := table_name t\<rparr>
                     in case table_schema t of
                          None \<Rightarrow> c1'
                        | Some s \<Rightarrow> c1'\<lparr>m_schema_name := schema_name s\<rparr>));
          c3 = c2\<lparr>m_collation := ci_collation ci, m_length := ci_length ci\<rparr>
      in if \<not> ci_decimals ci < 2 ^ 16 then Inl (Assertion_failed ''ASSERT_NUM_LIMITS'')
         else
           (let c4 = c3\<lparr>m_decimals := ci_decimals ci\<rparr>
            in if m_type c4 = TYPE_BYTES then
                 (case get_descr TYPE_BYTES c4 of
                    Inl e \<Rightarrow> Inl e
                  | Inr fd \<Rightarrow>
                      (case fd of
                         FD_BYTES f \<Rightarrow>
                           (if 0 < pad_width env f then
                              (let c5 = c4\<lparr>m_padded := True\<rparr>
                               in if m_length c5 = pad_width env f then Inr c5
                                  else Inl (Assertion_failed ''m_length == pad_width''))
                            else Inr c4)
                       | _ \<Rightarrow> Inl Bad_variant_access))
               else Inr c4))"

subsection \<open>The meta-data of a result\<close>

text \<open>
  \<^verbatim>\<open>std::map::at\<close> raises \<^verbatim>\<open>std::out_of_range\<close> on a missing key;
  \<^verbatim>\<open>std::map::emplace\<close> inserts only when the key is not yet present.
\<close>

definition map_at :: "('k \<rightharpoonup> 'v) \<Rightarrow> 'k \<Rightarrow> error + 'v" where
  "map_at m k = (case m k of None \<Rightarrow> Inl (Out_of_range ''map::at'') | Some v \<Rightarrow> Inr v)"

definition emplace :: "('k \<rightharpoonup> 'v) \<Rightarrow> 'k \<Rightarrow> 'v \<Rightarrow> ('k \<rightharpoonup> 'v)" where
  "emplace m k v = (if m k = None then m(k \<mapsto> v) else m)"

text \<open>
  Modelled from the spec: the meta-data interface of a cursor, \<^verbatim>\<open>cdk::Meta_data\<close>,
  is declared outside the sources: the column count and, for a position, the wire type,
  the format-info object and the column-info object.
\<close>

record 'f cdk_Meta_data =
  cdk_col_count :: nat
  cdk_type :: "nat \<Rightarrow> Type_info"
  cdk_format :: "nat \<Rightarrow> 'f"
  cdk_col_info :: "nat \<Rightarrow> cdk_Column_info"

text \<open>\<^verbatim>\<open>Meta_data<STR>\<close> with the member \<open>m_col_count\<close> of its base.\<close>

record 'f Meta_data =
  m_col_count :: nat
  m_cols :: "nat \<rightharpoonup> 'f Column_info"

definition get_column :: "'f Meta_data \<Rightarrow> nat \<Rightarrow> error + 'f Column_info" where
  "get_column md pos = map_at (m_cols md) pos"

definition get_format :: "'f Meta_data \<Rightarrow> nat \<Rightarrow> error + 'f Column_info" where
  "get_format md pos = map_at (m_cols md) pos"

text \<open>
  \<^verbatim>\<open>Meta_data::add<T>\<close> and \<^verbatim>\<open>Meta_data::add_raw\<close> differ in the column they
  construct; both emplace it at \<open>pos\<close> and then call \<open>store_info\<close> on the column that
  is at \<open>pos\<close>.
\<close>

definition add_column ::
  "('f, 'n) cdk \<Rightarrow> nat \<Rightarrow> cdk_Column_info \<Rightarrow> 'f Column_info \<Rightarrow> 'f Meta_data \<Rightarrow>
     error + 'f Meta_data" where
  "add_column env pos ci c md =
     (let cols = emplace (m_cols md) pos c
      in case map_at cols pos of
           Inl e \<Rightarrow> Inl e
         | Inr c' \<Rightarrow>
             (case store_info env ci c' of
                Inl e \<Rightarrow> Inl e
              | Inr c'' \<Rightarrow> Inr (md\<lparr>m_cols := cols(pos \<mapsto> c'')\<rparr>)))"

text \<open>
  The column that the \<^verbatim>\<open>switch\<close> of the constructor builds for a wire type:
  \<^verbatim>\<open>add<T>\<close> for seven types, \<^verbatim>\<open>add_raw\<close> in the \<^verbatim>\<open>default\<close> branch (which
  \<open>TYPE_BYTES\<close> takes too, having no \<^verbatim>\<open>case\<close> of its own).
\<close>

fun new_column :: "Type_info \<Rightarrow> 'f \<Rightarrow> 'f Column_info" where
  "new_column TYPE_STRING fi = Column_info_of_descr (FD_STRING fi)"
| "new_column TYPE_INTEGER fi = Column_info_of_descr (FD_INTEGER fi)"
| "new_column TYPE_FLOAT fi = Column_info_of_descr (FD_FLOAT fi)"
| "new_column TYPE_DOCUMENT fi = Column_info_of_descr (FD_DOCUMENT fi)"
| "new_column TYPE_DATETIME fi = Column_info_of_descr (FD_DATETIME fi)"
| "new_column TYPE_GEOMETRY fi = Column_info_of_descr FD_GEOMETRY"
| "new_column TYPE_XML fi = Column_info_of_descr FD_XML"
| "new_column ti fi = Column_info_raw ti fi"

text \<open>The loop of the constructor over the positions, and the constructor.\<close>

fun Meta_data_loop ::
  "('f, 'n) cdk \<Rightarrow> 'f cdk_Meta_data \<Rightarrow> nat list \<Rightarrow> 'f Meta_data \<Rightarrow> error + 'f Meta_data" where
  "Meta_data_loop env md [] m = Inr m"
| "Meta_data_loop env md (pos # ps) m =
     (case add_column env pos (cdk_col_info md pos)
             (new_column (cdk_type md pos) (cdk_format md pos)) m of
        Inl e \<Rightarrow> Inl e
      | Inr m' \<Rightarrow> Meta_data_loop env md ps m')"

definition Meta_data_ctor ::
  "('f, 'n) cdk \<Rightarrow> 'f cdk_Meta_data \<Rightarrow> error + 'f Meta_data" where
  "Meta_data_ctor env md =
     Meta_data_loop env md [0..<cdk_col_count md]
       \<lparr>m_col_count = cdk_col_count md, m_cols = Map.empty\<rparr>"

subsection \<open>Value conversion\<close>

text \<open>
  The generic \<^verbatim>\<open>convert\<close> template: a raw value of \<^verbatim>\<open>data.size() - 1\<close> bytes from
  \<^verbatim>\<open>data.begin()\<close>. The size is unsigned: on an empty buffer the length wraps around
  and the copy reads past the buffer.
\<close>

definition convert_generic :: "bytes \<Rightarrow> error + 'n Value" where
  "convert_generic data =
     (if length data = 0 then Inl (Undefined_behaviour ''data.size() - 1'')
      else Inr (Value_raw (take (length data - 1) data)))"

text \<open>
  Overload resolution of \<^verbatim>\<open>convert(data, Format_descr<T>&)\<close>: the four typed
  overloads where they are declared, the generic template for every other descriptor.
\<close>

fun convert :: "('f, 'n) cdk \<Rightarrow> bytes \<Rightarrow> 'f Format_descr \<Rightarrow> error + 'n Value" where
  "convert env data (FD_STRING f) = convert_STRING env data f"
| "convert env data (FD_INTEGER f) = convert_INTEGER env data f"
| "convert env data (FD_FLOAT f) = convert_FLOAT env data f"
| "convert env data (FD_DOCUMENT f) = convert_DOCUMENT env data f"
| "convert env data fd = convert_generic data"

text \<open>
  \<^verbatim>\<open>Value::Access::mk\<close>: the converted value; unless it is a raw, string or NULL value
  its \<open>m_str\<close> is assigned the bytes from \<^verbatim>\<open>data.begin()\<close> to \<^verbatim>\<open>data.end() - 1\<close>.
\<close>

definition mk :: "('f, 'n) cdk \<Rightarrow> bytes \<Rightarrow> 'f Format_descr \<Rightarrow> error + 'n Value" where
  "mk env data format =
     (case convert env data format of
        Inl e \<Rightarrow> Inl e
      | Inr val \<Rightarrow>
          (case get_type val of
             RAW \<Rightarrow> Inr val
           | STRING \<Rightarrow> Inr val
           | VNULL \<Rightarrow> Inr val
           | VNATIVE \<Rightarrow>
               (if length data = 0 then Inl (Undefined_behaviour ''data.end() - 1'')
                else Inr (val\<lparr>m_str := take (length data - 1) data\<rparr>))))"

subsection \<open>Rows\<close>

text \<open>
  \<^verbatim>\<open>Row_impl<VAL>\<close>. \<open>m_data\<close> is the \<^verbatim>\<open>Row_data\<close> map from column positions to
  buffers; \<open>m_mdata\<close> is the shared pointer to the meta-data, \<open>None\<close> when null. The
  member \<^verbatim>\<open>m_col_count\<close> of the row is \<open>m_row_col_count\<close> here.
\<close>

type_synonym Row_data = "nat \<rightharpoonup> bytes"

record ('f, 'n) Row_impl =
  m_data :: Row_data
  m_mdata :: "'f Meta_data option"
  m_vals :: "nat \<rightharpoonup> 'n Value"
  m_row_col_count :: nat

definition Row_impl_empty :: "('f, 'n) Row_impl" where
  "Row_impl_empty =
     \<lparr>m_data = Map.empty, m_mdata = None, m_vals = Map.empty, m_row_col_count = 0\<rparr>"

definition Row_impl_ctor :: "Row_data \<Rightarrow> 'f Meta_data option \<Rightarrow> ('f, 'n) Row_impl" where
  "Row_impl_ctor data md =
     \<lparr>m_data = data, m_mdata = md, m_vals = Map.empty, m_row_col_count = 0\<rparr>"

definition col_count :: "('f, 'n) Row_impl \<Rightarrow> nat" where
  "col_count r = (case m_mdata r of Some md \<Rightarrow> m_col_count md | None \<Rightarrow> m_row_col_count r)"

definition get_bytes :: "nat \<Rightarrow> ('f, 'n) Row_impl \<Rightarrow> error + bytes" where
  "get_bytes pos r =
     (if (case m_mdata r of Some md \<Rightarrow> m_col_count md \<le> pos | None \<Rightarrow> False)
      then Inl (Out_of_range ''row column'')
      else (case map_at (m_data r) pos of
              Inr b \<Rightarrow> Inr b
            | Inl _ \<Rightarrow> Inr []))"

definition set_value :: "nat \<Rightarrow> 'n Value \<Rightarrow> ('f, 'n) Row_impl \<Rightarrow> ('f, 'n) Row_impl" where
  "set_value pos val r =
     (let r' = r\<lparr>m_vals := emplace (m_vals r) pos val\<rparr>
      in if m_row_col_count r' \<le> pos then r'\<lparr>m_row_col_count := pos + 1\<rparr> else r')"

text \<open>
  \<^verbatim>\<open>Row_impl::convert_at\<close>. A missing or empty buffer gives the NULL value. The
  \<^verbatim>\<open>switch\<close> has one \<^verbatim>\<open>case\<close> for each type of \<^verbatim>\<open>CDK_TYPE_LIST\<close>, which reads
  the descriptor of that type from the variant, and no \<^verbatim>\<open>default\<close>: for any other
  type nothing is stored.
\<close>

definition convert_at ::
  "('f, 'n) cdk \<Rightarrow> nat \<Rightarrow> 'f Column_info \<Rightarrow> ('f, 'n) Row_impl \<Rightarrow> error + ('f, 'n) Row_impl" where
  "convert_at env pos fi r =
     (case m_data r pos of
        None \<Rightarrow> Inr (r\<lparr>m_vals := emplace (m_vals r) pos Value_null\<rparr>)
      | Some raw \<Rightarrow>
          (if length raw = 0 then Inr (r\<lparr>m_vals := emplace (m_vals r) pos Value_null\<rparr>)
           else if m_type fi \<in> set CDK_TYPE_LIST then
             (case get_descr (m_type fi) fi of
                Inl e \<Rightarrow> Inl e
              | Inr fd \<Rightarrow>
                  (case mk env raw fd of
                     Inl e \<Rightarrow> Inl e
                   | Inr v \<Rightarrow> Inr (r\<lparr>m_vals := emplace (m_vals r) pos v\<rparr>)))
           else Inr r))"

text \<open>
  \<^verbatim>\<open>Row_impl::get\<close>: the result and the row after the call. An exception leaves the
  row as it was.
\<close>

definition get ::
  "('f, 'n) cdk \<Rightarrow> nat \<Rightarrow> ('f, 'n) Row_impl \<Rightarrow> (error + 'n Value) \<times> ('f, 'n) Row_impl" where
  "get env pos r =
     (if (case m_mdata r of Some md \<Rightarrow> m_col_count md \<le> pos | None \<Rightarrow> False)
      then (Inl (Out_of_range ''row column''), r)
      else
        (case map_at (m_vals r) pos of
           Inr v \<Rightarrow> (Inr v, r)
         | Inl e \<Rightarrow>
             (case m_mdata r of
                None \<Rightarrow> (Inl e, r)
              | Some md \<Rightarrow>
                  (case get_format md pos of
                     Inl e' \<Rightarrow> (Inl e', r)
                   | Inr fi \<Rightarrow>
                       (case convert_at env pos fi r of
                          Inl e' \<Rightarrow> (Inl e', r)
                        | Inr r' \<Rightarrow>
                            (case map_at (m_vals r') pos of
                               Inl e' \<Rightarrow> (Inl e', r')
                             | Inr v \<Rightarrow> (Inr v, r')))))))"

section \<open>The transport\<close>

text \<open>
  Modelled from the spec: the reply and cursor handles of cdk are declared outside the
  sources. Section 6 of the spec lists what the result code consumes from them; waiting
  on either blocks and returns. A reply holds its diagnostic entries, whether it has a
  result with rows, the two counts, and the cursor that \<^verbatim>\<open>new cdk::Cursor(reply)\<close>
  opens on it. A cursor holds the meta-data of its result and the row-processor calls
  that \<^verbatim>\<open>get_rows\<close> has not yet made, in the order of section 4.4.
\<close>

datatype Severity = INFO | WARNING | ERROR

datatype Row_event =
    Row_begin nat
  | Field_begin nat nat
  | Field_data nat bytes
  | Field_end nat
  | Field_null nat
  | Row_end nat
  | End_of_data

record 'f cdk_Cursor =
  cur_md :: "'f cdk_Meta_data"
  cur_rows :: "Row_event list"
  cur_closed :: bool

record 'f cdk_Reply =
  reply_entries :: "(Severity \<times> string) list"
  has_results :: bool
  affected_rows :: nat
  last_insert_id :: nat
  reply_cursor :: "'f cdk_Cursor"

text \<open>
  Modelled from the spec: \<^verbatim>\<open>entry_count(severity)\<close> of the reply, the number of its
  diagnostic entries of that severity.
\<close>

definition entry_count :: "Severity \<Rightarrow> 'f cdk_Reply \<Rightarrow> nat" where
  "entry_count level rep = length (filter (\<lambda>e. fst e = level) (reply_entries rep))"

section \<open>The result object of the connector\<close>

text \<open>
  \<^verbatim>\<open>Result::Impl\<close> of \<^verbatim>\<open>src/connector/result.cc\<close>. Its members \<^verbatim>\<open>m_reply\<close> and
  \<^verbatim>\<open>m_cursor\<close> are \<open>m_reply_Impl\<close> and \<open>m_cursor_Impl\<close> here; a null pointer is
  \<open>None\<close>.
\<close>

record 'f Impl =
  m_reply_Impl :: "'f cdk_Reply option"
  m_cursor_Impl :: "'f cdk_Cursor option"
  m_rows :: "nat \<rightharpoonup> Row_data"
  m_pos :: nat
  m_guid :: string

text \<open>
  The row processor. \<^verbatim>\<open>std::map::insert\<close> keeps an entry that is already there;
  \<^verbatim>\<open>operator[]\<close> creates a missing entry with the default value. In
  \<^verbatim>\<open>field_data\<close> both keys are cast to \<^verbatim>\<open>unsigned\<close>, here 32 bits wide.
\<close>

definition Impl_row_begin :: "nat \<Rightarrow> 'f Impl \<Rightarrow> 'f Impl" where
  "Impl_row_begin pos s = s\<lparr>m_pos := pos, m_rows := emplace (m_rows s) pos Map.empty\<rparr>"

definition Impl_field_begin :: "nat \<Rightarrow> 'f Impl \<Rightarrow> 'f Impl" where
  "Impl_field_begin pos s =
     (let rd = (case m_rows s (m_pos s) of None \<Rightarrow> Map.empty | Some rd \<Rightarrow> rd)
      in s\<lparr>m_rows := (m_rows s)(m_pos s \<mapsto> emplace rd pos [])\<rparr>)"

definition Impl_field_data :: "nat \<Rightarrow> bytes \<Rightarrow> 'f Impl \<Rightarrow> 'f Impl" where
  "Impl_field_data pos data s =
     (let row = m_pos s mod 2 ^ 32;
          col = pos mod 2 ^ 32;
          rd = (case m_rows s row of None \<Rightarrow> Map.empty | Some rd \<Rightarrow> rd);
          buf = (case rd col of None \<Rightarrow> [] | Some b \<Rightarrow> b)
      in s\<lparr>m_rows := (m_rows s)(row \<mapsto> rd(col \<mapsto> buf @ data))\<rparr>)"

fun Impl_process :: "'f Impl \<Rightarrow> Row_event \<Rightarrow> 'f Impl" where
  "Impl_process s (Row_begin pos) = Impl_row_begin pos s"
| "Impl_process s (Field_begin pos n) = Impl_field_begin pos s"
| "Impl_process s (Field_data pos data) = Impl_field_data pos data s"
| "Impl_process s (Field_end pos) = s"
| "Impl_process s (Field_null pos) = s"
| "Impl_process s (Row_end pos) = s"
| "Impl_process s End_of_data = s"

text \<open>
  \<^verbatim>\<open>read_rows\<close>: \<^verbatim>\<open>get_rows(*this)\<close> makes all the pending calls of the cursor on
  this object.
\<close>

definition read_rows :: "'f Impl \<Rightarrow> 'f Impl" where
  "read_rows s =
     (case m_cursor_Impl s of
        None \<Rightarrow> s
      | Some c \<Rightarrow> (foldl Impl_process s (cur_rows c))\<lparr>m_cursor_Impl := Some (c\<lparr>cur_rows := []\<rparr>)\<rparr>)"

text \<open>
  \<^verbatim>\<open>init\<close>. The call \<^verbatim>\<open>m_reply->entry_count()\<close> leaves the severity to the default
  argument, which is declared in cdk, outside the sources; by the spec it is the error
  severity (a reply that carries an error entry gives a result without data). The cursor
  is kept after it is closed, for its meta-data.
\<close>

definition init :: "'f Impl \<Rightarrow> 'f Impl" where
  "init s =
     (case m_reply_Impl s of
        None \<Rightarrow> s
      | Some rep \<Rightarrow>
          if 0 < entry_count ERROR rep then s
          else if has_results rep then
            (let s1 = s\<lparr>m_cursor_Impl := Some (reply_cursor rep)\<rparr>;
                 s2 = read_rows s1
             in s2\<lparr>m_cursor_Impl := map_option (\<lambda>c. c\<lparr>cur_closed := True\<rparr>) (m_cursor_Impl s2)\<rparr>)
          else s)"

text \<open>
  The two constructors run \<open>init\<close> on the new object; the one without a GUID leaves
  \<open>m_guid\<close> default-constructed. \<^verbatim>\<open>m_pos\<close> is not initialised by the source and is
  written by \<open>Impl_row_begin\<close> before the row processor reads it.
\<close>

definition Impl_ctor :: "'f cdk_Reply option \<Rightarrow> string \<Rightarrow> 'f Impl" where
  "Impl_ctor r guid =
     init \<lparr>m_reply_Impl = r, m_cursor_Impl = None, m_rows = Map.empty, m_pos = 0,
           m_guid = guid\<rparr>"

text \<open>
  The destructor, as the sequence of the objects it releases: \<^verbatim>\<open>delete m_reply\<close>
  and then \<^verbatim>\<open>delete m_cursor\<close>; deleting a null pointer does nothing.
\<close>

datatype Release = Release_reply | Release_cursor

definition Impl_dtor :: "'f Impl \<Rightarrow> Release list" where
  "Impl_dtor s =
     (case m_reply_Impl s of None \<Rightarrow> [] | Some _ \<Rightarrow> [Release_reply]) @
     (case m_cursor_Impl s of None \<Rightarrow> [] | Some _ \<Rightarrow> [Release_cursor])"

definition getBytes :: "nat \<Rightarrow> 'f Impl \<Rightarrow> error + bytes" where
  "getBytes pos s =
     (case map_at (m_rows s) (m_pos s) of
        Inl e \<Rightarrow> Inl e
      | Inr rd \<Rightarrow> map_at rd pos)"

subsection \<open>The string of a field\<close>

text \<open>
  What \<^verbatim>\<open>getString\<close> writes to its stream: the name of a listed type, a type code
  in decimal, a byte as two hexadecimal digits (width 2, fill character 0), and the
  characters of a C string, which ends at its first zero byte. The stream is a wide
  one and the C string a narrow one: each of its characters is widened. The widening of
  an ASCII character is that character; the widening of a byte from 0x80 on depends on
  the locale and on the signedness of \<^verbatim>\<open>char\<close>, and \<open>c_str\<close> gives no string then.
\<close>

fun type_name :: "Type_info \<Rightarrow> string" where
  "type_name TYPE_INTEGER = ''INTEGER''"
| "type_name TYPE_FLOAT = ''FLOAT''"
| "type_name TYPE_STRING = ''STRING''"
| "type_name TYPE_DATETIME = ''DATETIME''"
| "type_name TYPE_BYTES = ''BYTES''"
| "type_name TYPE_DOCUMENT = ''DOCUMENT''"
| "type_name TYPE_GEOMETRY = ''GEOMETRY''"
| "type_name TYPE_XML = ''XML''"
| "type_name (TYPE_OTHER n) = []"

definition digit_char :: "nat \<Rightarrow> char" where
  "digit_char d = (if d < 10 then char_of (48 + d) else char_of (87 + d))"

function decimal :: "nat \<Rightarrow> string" where
  "decimal n = (if n < 10 then [digit_char n] else decimal (n div 10) @ [digit_char (n mod 10)])"
  by pat_completeness auto
termination
  by (relation "measure id") auto

declare decimal.simps [simp del]

definition hex2 :: "byte \<Rightarrow> string" where
  "hex2 b = [digit_char (unat b div 16), digit_char (unat b mod 16)]"

definition c_str :: "bytes \<Rightarrow> error + string" where
  "c_str bs =
     (let cs = takeWhile (\<lambda>b. b \<noteq> 0) bs
      in if list_all (\<lambda>b. unat b < 128) cs then Inr (map (\<lambda>b. char_of (unat b)) cs)
         else Inl (Unspecified ''widen''))"

definition type_prefix :: "Type_info \<Rightarrow> string" where
  "type_prefix ti =
     (if ti \<in> set CDK_TYPE_LIST then type_name ti @ '': ''
      else ''UNKNOWN('' @ (case ti of TYPE_OTHER n \<Rightarrow> decimal n | _ \<Rightarrow> []) @ ''): '')"

text \<open>
  \<^verbatim>\<open>getString\<close>. The check of the position is \<^verbatim>\<open>pos > m_cursor->col_count()\<close>.
  \<^verbatim>\<open>m_rows.at(m_pos)\<close> stands before the \<^verbatim>\<open>try\<close> block; inside it
  \<^verbatim>\<open>rd.at(pos)\<close> raises for a NULL field and the handler writes \<^verbatim>\<open><null>\<close>. For a
  string the bytes up to \<^verbatim>\<open>data.end() - 1\<close> are written as a C string.
\<close>

definition getString :: "nat \<Rightarrow> 'f Impl \<Rightarrow> error + string" where
  "getString pos s =
     (case m_cursor_Impl s of
        None \<Rightarrow> Inl (Thrown ''empty row'')
      | Some c \<Rightarrow>
          if cdk_col_count (cur_md c) < pos then Inl (Thrown ''pos out of range'')
          else
            (let out = type_prefix (cdk_type (cur_md c) pos)
             in case map_at (m_rows s) (m_pos s) of
                  Inl e \<Rightarrow> Inl e
                | Inr rd \<Rightarrow>
                    (case map_at rd pos of
                       Inl _ \<Rightarrow> Inr (out @ ''<null>'')
                     | Inr data \<Rightarrow>
                         (if cdk_type (cur_md c) pos = TYPE_STRING then
                            (if length data = 0 then Inl (Undefined_behaviour ''data.end() - 1'')
                             else case c_str (take (length data - 1) data) of
                                    Inl e \<Rightarrow> Inl e
                                  | Inr str \<Rightarrow> Inr (out @ [CHR 0x22] @ str @ [CHR 0x22]))
                          else Inr (out @ concat (map hex2 data))))))"

section \<open>The result object\<close>

text \<open>
  \<^verbatim>\<open>Result_impl_base\<close> of \<^verbatim>\<open>src/common/result.h\<close>: the members that the functions
  below read or write. \<open>m_diag\<close> holds the entries of the base
  \<^verbatim>\<open>cdk::Diagnostic_arena\<close>; \<open>m_row_cache\<close> is the forward list of cached rows,
  oldest first.
\<close>

record 'f Result_impl_base =
  m_inited :: bool
  m_pending_rows :: bool
  m_reply :: "'f cdk_Reply option"
  m_cursor :: "'f cdk_Cursor option"
  m_row_cache :: "Row_data list"
  m_row_cache_size :: nat
  m_diag_ready :: bool
  m_diag :: "(Severity \<times> string) list"
  m_row :: Row_data
  m_row_filter :: "Row_data \<Rightarrow> bool"

text \<open>
  Modelled from the spec: the constructor \<^verbatim>\<open>Result_impl_base(Result_init&)\<close> is
  defined outside the sources. The members start with the default initialisers of the
  class (no result prepared, no cursor, an empty cache, a filter that accepts every
  row); the reply is the one that \<^verbatim>\<open>Result_init::get_reply\<close> hands over.
\<close>

definition Result_impl_base_ctor :: "'f cdk_Reply option \<Rightarrow> 'f Result_impl_base" where
  "Result_impl_base_ctor r =
     \<lparr>m_inited = False, m_pending_rows = False, m_reply = r, m_cursor = None,
      m_row_cache = [], m_row_cache_size = 0, m_diag_ready = False, m_diag = [],
      m_row = Map.empty, m_row_filter = (\<lambda>_. True)\<rparr>"

definition clear_cache :: "'f Result_impl_base \<Rightarrow> 'f Result_impl_base" where
  "clear_cache s = s\<lparr>m_row_cache := [], m_row_cache_size := 0\<rparr>"

definition clear_diagnostics :: "'f Result_impl_base \<Rightarrow> 'f Result_impl_base" where
  "clear_diagnostics s = s\<lparr>m_diag := [], m_diag_ready := False\<rparr>"

text \<open>
  Modelled from the spec: \<^verbatim>\<open>load_diagnostics\<close> is defined outside the sources. It
  copies the entries of the reply into this object; the entries are read on the first
  access and kept until they are cleared.
\<close>

definition load_diagnostics :: "'f Result_impl_base \<Rightarrow> 'f Result_impl_base" where
  "load_diagnostics s =
     (if m_diag_ready s then s
      else case m_reply s of
             None \<Rightarrow> s
           | Some rep \<Rightarrow> s\<lparr>m_diag := m_diag s @ reply_entries rep, m_diag_ready := True\<rparr>)"

subsection \<open>Facts of the result\<close>

definition get_col_count :: "'f Result_impl_base \<Rightarrow> error + nat" where
  "get_col_count s =
     (case m_cursor s of
        None \<Rightarrow> Inl (Error ''No result set'')
      | Some c \<Rightarrow> Inr (cdk_col_count (cur_md c)))"

definition get_affected_rows :: "'f Result_impl_base \<Rightarrow> error + nat" where
  "get_affected_rows s =
     (case m_reply s of
        None \<Rightarrow> Inl (Error ''Attempt to get affected rows count on empty result'')
      | Some rep \<Rightarrow> Inr (affected_rows rep))"

definition get_auto_increment :: "'f Result_impl_base \<Rightarrow> error + nat" where
  "get_auto_increment s =
     (case m_reply s of
        None \<Rightarrow> Inl (Error ''Attempt to get auto increment value on empty result'')
      | Some rep \<Rightarrow> Inr (last_insert_id rep))"

definition get_warning_count ::
  "'f Result_impl_base \<Rightarrow> (error + nat) \<times> 'f Result_impl_base" where
  "get_warning_count s =
     (case m_reply s of
        None \<Rightarrow> (Inl (Error ''Attempt to get warning count for empty result''), s)
      | Some rep \<Rightarrow> (Inr (entry_count WARNING rep), load_diagnostics s))"

definition has_data :: "'f Result_impl_base \<Rightarrow> bool" where
  "has_data s = (m_row_cache s \<noteq> [] \<or> m_pending_rows s)"

subsection \<open>Row ingest and the row cache\<close>

text \<open>
  The row processor of the result object. \<^verbatim>\<open>row_begin\<close> clears the row being
  assembled; \<^verbatim>\<open>field_end\<close> and \<^verbatim>\<open>field_null\<close> do nothing.
\<close>

definition row_begin :: "nat \<Rightarrow> 'f Result_impl_base \<Rightarrow> 'f Result_impl_base" where
  "row_begin pos s = s\<lparr>m_row := Map.empty\<rparr>"

text \<open>
  Modelled from the spec: \<^verbatim>\<open>field_begin\<close>, \<^verbatim>\<open>field_data\<close>, \<^verbatim>\<open>row_end\<close> and
  \<^verbatim>\<open>end_of_data\<close> are declared in the sources and defined outside them. By section
  4.4 a field that begins has a buffer, its chunks are concatenated in delivery order,
  the filter is evaluated at \<^verbatim>\<open>row_end\<close> and a row that fails it is not kept, a row
  that passes is appended to the cache, and \<^verbatim>\<open>end_of_data\<close> signals that no rows
  are pending.
\<close>

definition field_begin :: "nat \<Rightarrow> 'f Result_impl_base \<Rightarrow> 'f Result_impl_base" where
  "field_begin pos s = s\<lparr>m_row := emplace (m_row s) pos []\<rparr>"

definition field_data :: "nat \<Rightarrow> bytes \<Rightarrow> 'f Result_impl_base \<Rightarrow> 'f Result_impl_base" where
  "field_data pos data s =
     s\<lparr>m_row := (m_row s)(pos \<mapsto> (case m_row s pos of None \<Rightarrow> [] | Some b \<Rightarrow> b) @ data)\<rparr>"

definition row_end :: "nat \<Rightarrow> 'f Result_impl_base \<Rightarrow> 'f Result_impl_base" where
  "row_end pos s =
     (if m_row_filter s (m_row s)
      then s\<lparr>m_row_cache := m_row_cache s @ [m_row s],
             m_row_cache_size := m_row_cache_size s + 1\<rparr>
      else s)"

definition end_of_data :: "'f Result_impl_base \<Rightarrow> 'f Result_impl_base" where
  "end_of_data s = s\<lparr>m_pending_rows := False\<rparr>"

fun process :: "'f Result_impl_base \<Rightarrow> Row_event \<Rightarrow> 'f Result_impl_base" where
  "process s (Row_begin pos) = row_begin pos s"
| "process s (Field_begin pos n) = field_begin pos s"
| "process s (Field_data pos data) = field_data pos data s"
| "process s (Field_end pos) = s"
| "process s (Field_null pos) = s"
| "process s (Row_end pos) = row_end pos s"
| "process s End_of_data = end_of_data s"

text \<open>
  Modelled from the spec: \<^verbatim>\<open>load_cache\<close> is declared in the sources and defined
  outside them. By its comment and section 4.5: if the cache is not empty it returns
  true right away; otherwise it drives the ingest until the transport has no more
  calls to make or \<open>prefetch_size\<close> rows have been appended (0 for no bound); it
  returns whether rows are present in the cache. \<open>deliver\<close> is the driving of the
  ingest: the calls the cursor has left, and the object after the calls made.
\<close>

fun deliver ::
  "nat \<Rightarrow> Row_event list \<Rightarrow> 'f Result_impl_base \<Rightarrow> Row_event list \<times> 'f Result_impl_base" where
  "deliver prefetch_size [] s = ([], s)"
| "deliver prefetch_size (e # es) s =
     (let s' = process s e
      in if prefetch_size \<noteq> 0 \<and> (case e of Row_end _ \<Rightarrow> True | _ \<Rightarrow> False) \<and>
            prefetch_size \<le> length (m_row_cache s')
         then (es, s')
         else deliver prefetch_size es s')"

definition load_cache :: "nat \<Rightarrow> 'f Result_impl_base \<Rightarrow> bool \<times> 'f Result_impl_base" where
  "load_cache prefetch_size s =
     (if m_row_cache s \<noteq> [] then (True, s)
      else case m_cursor s of
             None \<Rightarrow> (False, s)
           | Some c \<Rightarrow>
               (let (rest, s') = deliver prefetch_size (cur_rows c) s;
                    s'' = s'\<lparr>m_cursor := Some (c\<lparr>cur_rows := rest\<rparr>)\<rparr>
                in (m_row_cache s'' \<noteq> [], s'')))"

text \<open>\<^verbatim>\<open>store\<close> and \<^verbatim>\<open>count\<close>, from the sources.\<close>

definition store :: "'f Result_impl_base \<Rightarrow> 'f Result_impl_base" where
  "store s = snd (load_cache 0 s)"

definition count :: "'f Result_impl_base \<Rightarrow> nat \<times> 'f Result_impl_base" where
  "count s = (let s' = store s in (m_row_cache_size s', s'))"

text \<open>
  The spec's description of \<^verbatim>\<open>count\<close>, to compare with the code: an unbounded load
  of the cache, followed by reporting the total number of cached rows.
\<close>

definition count_spec :: "'f Result_impl_base \<Rightarrow> nat \<times> 'f Result_impl_base" where
  "count_spec s = (let s' = snd (load_cache 0 s) in (length (m_row_cache s'), s'))"

section \<open>Concrete inputs\<close>

text \<open>
  A stand-in for the parts of cdk, used where a theorem is instantiated at a concrete
  input: the format-info object is its pad width; the string codec keeps the bytes
  before the sentinel, the integer codec reads the first byte, the other two raise.
\<close>

definition env0 :: "(nat, nat) cdk" where
  "env0 = \<lparr>pad_width = (\<lambda>f. f),
           convert_STRING = (\<lambda>d f. Inr \<lparr>get_type = STRING, m_str = butlast d, m_val = None\<rparr>),
           convert_INTEGER = (\<lambda>d f. Inr \<lparr>get_type = VNATIVE, m_str = [], m_val = Some (unat (hd d))\<rparr>),
           convert_FLOAT = (\<lambda>d f. Inl (Codec_error ''float'')),
           convert_DOCUMENT = (\<lambda>d f. Inl (Codec_error ''document''))\<rparr>"

text \<open>
  A result with four columns: a datetime, a bytes column padded to four bytes, a column
  of a type code outside the list, and an integer.
\<close>

definition ci0 :: cdk_Column_info where
  "ci0 = \<lparr>ci_orig_name = ''c'', ci_name = ''c'', ci_table = None, ci_collation = 0,
          ci_length = 4, ci_decimals = 0\<rparr>"

definition cmd0 :: "nat cdk_Meta_data" where
  "cmd0 = \<lparr>cdk_col_count = 4,
           cdk_type = (\<lambda>p. if p = 0 then TYPE_DATETIME else if p = 1 then TYPE_BYTES
                          else if p = 2 then TYPE_OTHER 99 else TYPE_INTEGER),
           cdk_format = (\<lambda>p. if p = 1 then 4 else 0),
           cdk_col_info = (\<lambda>p. ci0)\<rparr>"

definition column0 :: "Type_info \<Rightarrow> nat Format_descr \<Rightarrow> bool \<Rightarrow> nat Column_info" where
  "column0 ty fd p =
     \<lparr>m_type = ty, m_fmt = fd, m_name = ''c'', m_label = ''c'', m_table_name = [],
      m_table_label = [], m_schema_name = [], m_length = 4, m_decimals = 0,
      m_collation = 0, m_padded = p\<rparr>"

text \<open>The meta-data that the constructor builds from \<open>cmd0\<close>.\<close>

definition md0 :: "nat Meta_data" where
  "md0 = \<lparr>m_col_count = 4,
          m_cols = [0 \<mapsto> column0 TYPE_DATETIME (FD_DATETIME 0) False,
                    1 \<mapsto> column0 TYPE_BYTES (FD_BYTES 4) True,
                    2 \<mapsto> column0 (TYPE_OTHER 99) (FD_BYTES 0) False,
                    3 \<mapsto> column0 TYPE_INTEGER (FD_INTEGER 0) False]\<rparr>"

text \<open>
  Rows over \<open>md0\<close>. In \<open>row0\<close> the datetime and the integer hold the sentinel byte
  only, the bytes column holds one byte and the sentinel, and the column of the unlisted
  type is NULL. In \<open>row1\<close> the column of the unlisted type holds the sentinel byte.
\<close>

definition row0 :: "(nat, nat) Row_impl" where
  "row0 = Row_impl_ctor [0 \<mapsto> [0], 1 \<mapsto> [7, 0], 3 \<mapsto> [0]] (Some md0)"

definition row1 :: "(nat, nat) Row_impl" where
  "row1 = Row_impl_ctor [2 \<mapsto> [0]] (Some md0)"

definition env1 :: "(nat, nat) cdk" where
  "env1 = \<lparr>pad_width = (\<lambda>f. f),
           convert_STRING = (\<lambda>d f. Inl (Codec_error ''string'')),
           convert_INTEGER = (\<lambda>d f. Inl (Codec_error ''integer'')),
           convert_FLOAT = (\<lambda>d f. Inl (Codec_error ''float'')),
           convert_DOCUMENT = (\<lambda>d f. Inl (Codec_error ''document''))\<rparr>"

text \<open>
  A reply with one string column and one row, whose field is the byte \<open>a\<close> and the
  sentinel; no diagnostic entries. \<open>reply_err\<close> is the same reply carrying an error.
\<close>

definition cursor0 :: "nat cdk_Cursor" where
  "cursor0 =
     \<lparr>cur_md = \<lparr>cdk_col_count = 1, cdk_type = (\<lambda>p. TYPE_STRING), cdk_format = (\<lambda>p. 0),
                 cdk_col_info = (\<lambda>p. ci0)\<rparr>,
      cur_rows = [Row_begin 0, Field_begin 0 2, Field_data 0 [97, 0], Field_end 0,
                  Row_end 0, End_of_data],
      cur_closed = False\<rparr>"

definition reply0 :: "nat cdk_Reply" where
  "reply0 = \<lparr>reply_entries = [], has_results = True, affected_rows = 1,
             last_insert_id = 0, reply_cursor = cursor0\<rparr>"

definition reply_err :: "nat cdk_Reply" where
  "reply_err = reply0\<lparr>reply_entries := [(ERROR, ''syntax error'')]\<rparr>"

text \<open>
  A result object holding \<open>reply0\<close>: as constructed, and with its result prepared (the
  cursor acquired, rows pending).
\<close>

definition res_new :: "nat Result_impl_base" where
  "res_new = Result_impl_base_ctor (Some reply0)"

definition res0 :: "nat Result_impl_base" where
  "res0 = res_new\<lparr>m_inited := True, m_pending_rows := True, m_cursor := Some cursor0\<rparr>"

text \<open>
  A result with three rows pending, each of one field, and the result object after a
  load of the cache bounded to one row.
\<close>

definition cursor3 :: "nat cdk_Cursor" where
  "cursor3 =
     cursor0\<lparr>cur_rows :=
       [Row_begin 0, Field_begin 0 2, Field_data 0 [97, 0], Field_end 0, Row_end 0,
        Row_begin 1, Field_begin 0 2, Field_data 0 [98, 0], Field_end 0, Row_end 1,
        Row_begin 2, Field_begin 0 2, Field_data 0 [99, 0], Field_end 0, Row_end 2,
        End_of_data]\<rparr>"

definition res3 :: "nat Result_impl_base" where
  "res3 = res_new\<lparr>m_inited := True, m_pending_rows := True, m_cursor := Some cursor3\<rparr>"

definition res3_prefetched :: "nat Result_impl_base" where
  "res3_prefetched = snd (load_cache 1 res3)"

section \<open>Facts about the concrete inputs\<close>

lemma upt4: "[0..<4] = [0, 1, 2, Suc 2]"
  by (simp add: upt_rec)

lemma md0_built: "Meta_data_ctor env0 cmd0 = Inr md0"
  by (simp add: Meta_data_ctor_def cmd0_def upt4 add_column_def emplace_def map_at_def
      store_info_def env0_def ci0_def Column_info_of_descr_def Column_info_raw_def
      get_descr_def md0_def column0_def)

lemma row0_mdata: "m_mdata row0 = Some md0" "m_vals row0 = Map.empty"
  "m_data row0 = [0 \<mapsto> [0], 1 \<mapsto> [7, 0], 3 \<mapsto> [0]]"
  by (simp_all add: row0_def Row_impl_ctor_def)

lemma row0_col_count: "col_count row0 = 4"
  by (simp add: col_count_def row0_mdata md0_def)

lemma impl0: "Impl_ctor (Some reply0) ''g'' =
   \<lparr>m_reply_Impl = Some reply0, m_cursor_Impl = Some (cursor0\<lparr>cur_rows := [], cur_closed := True\<rparr>),
    m_rows = [0 \<mapsto> [0 \<mapsto> [97, 0]]], m_pos = 0, m_guid = ''g''\<rparr>"
  by (simp add: Impl_ctor_def init_def reply0_def entry_count_def read_rows_def cursor0_def
      Impl_row_begin_def Impl_field_begin_def Impl_field_data_def emplace_def)

section \<open>Value conversion without a codec\<close>

lemma convert_generic_nonempty:
  "data \<noteq> [] \<Longrightarrow> convert_generic data = Inr (Value_raw (butlast data))"
  by (simp add: convert_generic_def butlast_conv_take)

lemma new_column_no_codec:
  "ti \<notin> {TYPE_STRING, TYPE_INTEGER, TYPE_FLOAT, TYPE_DOCUMENT} \<Longrightarrow>
   convert env data (m_fmt (new_column ti fi)) = convert_generic data"
  by (cases ti) (simp_all add: Column_info_of_descr_def Column_info_raw_def)

text \<open>
  C1. Let a column have a wire type without a value codec, that is any type but string,
  integer, float and document: datetime, bytes, geometry, xml or a type code outside the
  list. On the descriptor that the meta-data constructor stores for the column,
  \<open>convert\<close> (and \<open>mk\<close>, which calls it) turns a non-empty buffer into the raw-bytes
  value of the buffer without its last byte; the value is one byte shorter than the
  buffer.
\<close>

theorem C1_convert_no_codec:
  assumes "ti \<notin> {TYPE_STRING, TYPE_INTEGER, TYPE_FLOAT, TYPE_DOCUMENT}"
    and "data \<noteq> []"
  shows "convert env data (m_fmt (new_column ti fi)) = Inr (Value_raw (butlast data)) \<and>
         mk env data (m_fmt (new_column ti fi)) = Inr (Value_raw (butlast data)) \<and>
         length (butlast data) = length data - 1"
  using assms
  by (simp add: new_column_no_codec convert_generic_nonempty mk_def Value_raw_def)

theorem C1_convert_no_codec_witness:
  "TYPE_OTHER 42 \<notin> {TYPE_STRING, TYPE_INTEGER, TYPE_FLOAT, TYPE_DOCUMENT} \<and>
   [1, 2, 0 :: byte] \<noteq> [] \<and>
   convert env0 [1, 2, 0] (m_fmt (new_column (TYPE_OTHER 42) (0::nat))) = Inr (Value_raw [1, 2]) \<and>
   mk env0 [1, 2, 0] (m_fmt (new_column (TYPE_OTHER 42) (0::nat))) = Inr (Value_raw [1, 2])"
  using C1_convert_no_codec [of "TYPE_OTHER 42" "[1, 2, 0]" env0 0]
  by simp

section \<open>Column meta-data\<close>

lemma store_info_padded_iff:
  "store_info env ci c = Inr c' \<Longrightarrow> \<not> m_padded c \<Longrightarrow>
   m_padded c' = (m_type c = TYPE_BYTES \<and> (\<exists>f. m_fmt c = FD_BYTES f \<and> 0 < pad_width env f))"
  by (auto simp: store_info_def Let_def get_descr_def
      split: if_splits option.splits sum.splits Format_descr.splits)

lemma store_info_keeps_format:
  "store_info env ci c = Inr c' \<Longrightarrow> m_type c' = m_type c \<and> m_fmt c' = m_fmt c"
  by (auto simp: store_info_def Let_def get_descr_def
      split: if_splits option.splits sum.splits Format_descr.splits)

lemma new_column_type: "m_type (new_column ti fi) = ti"
  by (cases ti) (simp_all add: Column_info_of_descr_def Column_info_raw_def)

lemma new_column_not_padded: "\<not> m_padded (new_column ti fi)"
  by (cases ti) (simp_all add: Column_info_of_descr_def Column_info_raw_def)

lemma new_column_bytes: "m_fmt (new_column ti fi) = FD_BYTES f \<longleftrightarrow> (
   ti \<notin> {TYPE_STRING, TYPE_INTEGER, TYPE_FLOAT, TYPE_DOCUMENT, TYPE_DATETIME, TYPE_GEOMETRY, TYPE_XML} \<and> f = fi)"
  by (cases ti) (auto simp add: Column_info_of_descr_def Column_info_raw_def)

lemma store_info_bytes_ok:
  assumes "0 < pad_width env fi" "ci_length ci = pad_width env fi" "ci_decimals ci < 2 ^ 16"
  shows "\<exists>c. store_info env ci (new_column TYPE_BYTES fi) = Inr c \<and> m_padded c"
  using assms
  by (simp add: store_info_def Let_def get_descr_def Column_info_raw_def
      split: option.splits)

lemma store_info_bytes_no_length_failure:
  assumes "ci_length ci = pad_width env fi"
  shows "store_info env ci (new_column TYPE_BYTES fi) \<noteq> Inl (Assertion_failed ''m_length == pad_width'')"
  using assms
  by (simp add: store_info_def Let_def get_descr_def Column_info_raw_def
      split: option.splits)

section \<open>Padded columns\<close>

text \<open>
  C9. \<open>store_info\<close> on the column that the meta-data constructor has just built for a
  wire type \<open>ti\<close> and a format \<open>fi\<close>. For a bytes column with a positive pad width
  whose declared length equals the pad width, the assertion on the length does not
  fail, and (the decimals being within the limits that the preceding assertion checks)
  \<open>store_info\<close> returns a column marked padded. Whenever \<open>store_info\<close> returns, the
  column is marked padded exactly when its type is bytes and the pad width is positive:
  a bytes column with pad width zero and a column of any other type are not marked.
\<close>

theorem C9_padded:
  "(ti = TYPE_BYTES \<and> 0 < pad_width env fi \<and> ci_length ci = pad_width env fi \<longrightarrow>
      store_info env ci (new_column ti fi) \<noteq> Inl (Assertion_failed ''m_length == pad_width'') \<and>
      (ci_decimals ci < 2 ^ 16 \<longrightarrow>
         (\<exists>c. store_info env ci (new_column ti fi) = Inr c \<and> m_padded c))) \<and>
   (\<forall>c. store_info env ci (new_column ti fi) = Inr c \<longrightarrow>
      m_padded c = (ti = TYPE_BYTES \<and> 0 < pad_width env fi))"
proof (intro conjI impI allI)
  assume "ti = TYPE_BYTES \<and> 0 < pad_width env fi \<and> ci_length ci = pad_width env fi"
  then show "store_info env ci (new_column ti fi) \<noteq> Inl (Assertion_failed ''m_length == pad_width'')"
    using store_info_bytes_no_length_failure [of ci env fi] by simp
next
  assume "ti = TYPE_BYTES \<and> 0 < pad_width env fi \<and> ci_length ci = pad_width env fi"
    and "ci_decimals ci < 2 ^ 16"
  then show "\<exists>c. store_info env ci (new_column ti fi) = Inr c \<and> m_padded c"
    using store_info_bytes_ok [of env fi ci] by simp
next
  fix c assume r: "store_info env ci (new_column ti fi) = Inr c"
  have "m_padded c = (ti = TYPE_BYTES \<and> (\<exists>f. m_fmt (new_column ti fi) = FD_BYTES f \<and> 0 < pad_width env f))"
    using store_info_padded_iff [OF r new_column_not_padded] by (simp add: new_column_type)
  then show "m_padded c = (ti = TYPE_BYTES \<and> 0 < pad_width env fi)"
    by (auto simp: new_column_bytes)
qed

theorem C9_padded_witness:
  "store_info env0 ci0 (new_column TYPE_BYTES 4) = Inr (column0 TYPE_BYTES (FD_BYTES 4) True) \<and>
   m_padded (column0 TYPE_BYTES (FD_BYTES 4) True) \<and>
   store_info env0 ci0 (new_column TYPE_BYTES 4) \<noteq> Inl (Assertion_failed ''m_length == pad_width'') \<and>
   store_info env0 ci0 (new_column TYPE_INTEGER 4) = Inr (column0 TYPE_INTEGER (FD_INTEGER 4) False) \<and>
   \<not> m_padded (column0 TYPE_INTEGER (FD_INTEGER 4) False)"
proof -
  have b: "store_info env0 ci0 (new_column TYPE_BYTES 4) = Inr (column0 TYPE_BYTES (FD_BYTES 4) True)"
    by (simp add: store_info_def env0_def ci0_def Column_info_raw_def get_descr_def column0_def)
  have i: "store_info env0 ci0 (new_column TYPE_INTEGER 4) = Inr (column0 TYPE_INTEGER (FD_INTEGER 4) False)"
    by (simp add: store_info_def env0_def ci0_def Column_info_of_descr_def get_descr_def column0_def)
  have h: "0 < pad_width env0 (4::nat)" "ci_length ci0 = pad_width env0 4"
    by (simp_all add: env0_def ci0_def)
  from C9_padded [of TYPE_BYTES env0 4 ci0] C9_padded [of TYPE_INTEGER env0 4 ci0] b i h
  show ?thesis by simp
qed

section \<open>The meta-data constructor\<close>

lemma add_column_fresh:
  assumes "m_cols m pos = None" and "add_column env pos ci c m = Inr m'"
  shows "\<exists>c'. store_info env ci c = Inr c' \<and> m' = m\<lparr>m_cols := (m_cols m)(pos \<mapsto> c')\<rparr>"
  using assms
  by (auto simp: add_column_def emplace_def map_at_def Let_def split: sum.splits)

lemma Meta_data_loop_cols:
  assumes "Meta_data_loop env md ps m = Inr m'" and "distinct ps"
    and "\<forall>p\<in>set ps. m_cols m p = None"
  shows "m_col_count m' = m_col_count m \<and>
         (\<forall>p. p \<notin> set ps \<longrightarrow> m_cols m' p = m_cols m p) \<and>
         (\<forall>p\<in>set ps. \<exists>c. m_cols m' p = Some c \<and>
            store_info env (cdk_col_info md p)
              (new_column (cdk_type md p) (cdk_format md p)) = Inr c)"
  using assms
proof (induction ps arbitrary: m)
  case Nil
  then show ?case by simp
next
  case (Cons pos ps)
  from Cons.prems(1) obtain m1 where
    a: "add_column env pos (cdk_col_info md pos)
          (new_column (cdk_type md pos) (cdk_format md pos)) m = Inr m1"
    and l: "Meta_data_loop env md ps m1 = Inr m'"
    by (auto split: sum.splits)
  from Cons.prems(3) have fresh: "m_cols m pos = None" by simp
  from add_column_fresh [OF fresh a] obtain c' where
    s: "store_info env (cdk_col_info md pos)
          (new_column (cdk_type md pos) (cdk_format md pos)) = Inr c'"
    and m1: "m1 = m\<lparr>m_cols := (m_cols m)(pos \<mapsto> c')\<rparr>"
    by blast
  from Cons.prems(2) have d: "distinct ps" and np: "pos \<notin> set ps" by simp_all
  have f1: "\<forall>p\<in>set ps. m_cols m1 p = None"
    using Cons.prems(3) np by (auto simp: m1)
  note ih = Cons.IH [OF l d f1]
  show ?case
  proof (intro conjI allI impI ballI)
    show "m_col_count m' = m_col_count m" using ih by (simp add: m1)
  next
    fix p assume "p \<notin> set (pos # ps)"
    then show "m_cols m' p = m_cols m p" using ih by (simp add: m1)
  next
    fix p assume p: "p \<in> set (pos # ps)"
    show "\<exists>c. m_cols m' p = Some c \<and>
            store_info env (cdk_col_info md p)
              (new_column (cdk_type md p) (cdk_format md p)) = Inr c"
    proof (cases "p = pos")
      case True
      with np ih have "m_cols m' p = m_cols m1 p" by blast
      with True s show ?thesis by (simp add: m1)
    next
      case False
      with p have "p \<in> set ps" by simp
      with ih show ?thesis by blast
    qed
  qed
qed

lemma Meta_data_ctor_cols:
  assumes "Meta_data_ctor env md = Inr m"
  shows "m_col_count m = cdk_col_count md"
    and "pos < cdk_col_count md \<Longrightarrow>
         \<exists>c. m_cols m pos = Some c \<and> m_type c = cdk_type md pos \<and>
              m_fmt c = m_fmt (new_column (cdk_type md pos) (cdk_format md pos))"
    and "cdk_col_count md \<le> pos \<Longrightarrow> m_cols m pos = None"
proof -
  let ?m0 = "\<lparr>m_col_count = cdk_col_count md, m_cols = Map.empty\<rparr> :: 'a Meta_data"
  have l: "Meta_data_loop env md [0..<cdk_col_count md] ?m0 = Inr m"
    using assms by (simp add: Meta_data_ctor_def)
  have all: "m_col_count m = m_col_count ?m0 \<and>
         (\<forall>p. p \<notin> set [0..<cdk_col_count md] \<longrightarrow> m_cols m p = m_cols ?m0 p) \<and>
         (\<forall>p\<in>set [0..<cdk_col_count md]. \<exists>c. m_cols m p = Some c \<and>
            store_info env (cdk_col_info md p)
              (new_column (cdk_type md p) (cdk_format md p)) = Inr c)"
    by (rule Meta_data_loop_cols [OF l]) simp_all
  show "m_col_count m = cdk_col_count md" using all by simp
  show "\<exists>c. m_cols m pos = Some c \<and> m_type c = cdk_type md pos \<and>
              m_fmt c = m_fmt (new_column (cdk_type md pos) (cdk_format md pos))"
    if "pos < cdk_col_count md"
  proof -
    from that have "pos \<in> set [0..<cdk_col_count md]" by simp
    with all obtain c where c: "m_cols m pos = Some c"
      and s: "store_info env (cdk_col_info md pos)
              (new_column (cdk_type md pos) (cdk_format md pos)) = Inr c"
      by blast
    from store_info_keeps_format [OF s] c show ?thesis
      by (simp add: new_column_type)
  qed
  show "m_cols m pos = None" if "cdk_col_count md \<le> pos"
    using all that by simp
qed

text \<open>
  \<^verbatim>\<open>Meta_data::get_column\<close> on the meta-data the constructor has built: a column
  for every position below the column count, \<^verbatim>\<open>std::out_of_range\<close> for every other.
\<close>

lemma get_column_range:
  assumes "Meta_data_ctor env md = Inr m"
  shows "(\<exists>c. get_column m pos = Inr c) \<longleftrightarrow> pos < m_col_count m"
    and "(\<exists>s. get_column m pos = Inl (Out_of_range s)) \<longleftrightarrow> \<not> pos < m_col_count m"
  using Meta_data_ctor_cols(1) [OF assms] Meta_data_ctor_cols(2) [OF assms, of pos]
    Meta_data_ctor_cols(3) [OF assms, of pos]
  by (cases "pos < cdk_col_count md";
      auto simp: get_column_def map_at_def not_less split: option.splits)+

section \<open>Raw bytes of a field\<close>

lemma get_bytes_in_range:
  "pos < col_count r \<Longrightarrow>
   get_bytes pos r = Inr (case m_data r pos of None \<Rightarrow> [] | Some b \<Rightarrow> b)"
  by (auto simp: get_bytes_def col_count_def map_at_def split: option.splits)

text \<open>
  C10. For a position within the column count of the row, \<open>get_bytes\<close> returns the
  empty byte sequence, and raises nothing, when the row data has no buffer for the
  column; and when the buffers of the row data carry their sentinel byte (length at
  least one), an empty result of \<open>get_bytes\<close> means exactly that the column has no
  buffer, that is, that the field is NULL.
\<close>

theorem C10_get_bytes_null:
  assumes "pos < col_count r"
  shows "(m_data r pos = None \<longrightarrow> get_bytes pos r = Inr []) \<and>
         ((\<forall>b. m_data r pos = Some b \<longrightarrow> 1 \<le> length b) \<longrightarrow>
            (get_bytes pos r = Inr [] \<longleftrightarrow> m_data r pos = None))"
  using assms by (auto simp: get_bytes_in_range split: option.splits)

theorem C10_get_bytes_null_witness:
  "2 < col_count row0 \<and> m_data row0 2 = None \<and> get_bytes 2 row0 = Inr [] \<and>
   1 < col_count row0 \<and> m_data row0 1 = Some [7, 0] \<and> get_bytes 1 row0 \<noteq> Inr []"
  using C10_get_bytes_null [of 2 row0] C10_get_bytes_null [of 1 row0]
  by (simp add: row0_col_count row0_mdata)

section \<open>Memoized decoding\<close>

lemma get_hit:
  "m_vals r pos = Some v \<Longrightarrow> \<not> (case m_mdata r of Some md \<Rightarrow> m_col_count md \<le> pos | None \<Rightarrow> False)
   \<Longrightarrow> get env pos r = (Inr v, r)"
  by (simp add: get_def map_at_def)

lemma convert_at_frame:
  "convert_at env pos fi r = Inr r' \<Longrightarrow> m_mdata r' = m_mdata r \<and> m_data r' = m_data r"
  by (auto simp: convert_at_def split: option.splits if_splits sum.splits)

lemma get_result:
  "get env pos r = (Inr v, r') \<Longrightarrow>
     m_vals r' pos = Some v \<and> m_mdata r' = m_mdata r \<and>
     \<not> (case m_mdata r of Some md \<Rightarrow> m_col_count md \<le> pos | None \<Rightarrow> False)"
  by (auto simp: get_def map_at_def dest: convert_at_frame split: option.splits if_splits sum.splits)

lemma get_error:
  "get env pos r = (Inl e, r') \<Longrightarrow> r' = r"
  apply (auto simp: get_def map_at_def  split: option.splits if_splits sum.splits)
  apply (auto simp: convert_at_def emplace_def  split: option.splits if_splits sum.splits)
  done

lemma get_keeps_vals:
  "m_vals r pos = Some v \<Longrightarrow> m_vals (snd (get env p r)) pos = Some v"
  by (auto simp: get_def map_at_def convert_at_def emplace_def
      split: option.splits if_splits sum.splits)

text \<open>
  C8. Once \<open>get\<close> has returned a value for a position, every later \<open>get\<close> of that
  position returns the same value and leaves the row as it is, whatever codecs it is
  given: the value comes from \<open>m_vals\<close> and no conversion runs again. The outcome of
  \<open>get\<close> (value or exception) is also the same when the call is repeated. A value
  that \<open>m_vals\<close> holds for a position stays there through a \<open>get\<close> of any
  position, so calls for other columns in between change nothing of this.
\<close>

theorem C8_get_memoized:
  "(\<forall>v r'. get env pos r = (Inr v, r') \<longrightarrow> (\<forall>env'. get env' pos r' = (Inr v, r'))) \<and>
   get env pos (snd (get env pos r)) = get env pos r \<and>
   (\<forall>v p env'. m_vals r pos = Some v \<longrightarrow> m_vals (snd (get env' p r)) pos = Some v)"
proof (intro conjI allI impI)
  fix v p env'
  assume "m_vals r pos = Some v"
  then show "m_vals (snd (get env' p r)) pos = Some v" by (rule get_keeps_vals)
next
  fix v r' env'
  assume g: "get env pos r = (Inr v, r')"
  show "get env' pos r' = (Inr v, r')"
    using get_result [OF g] by (simp add: get_hit)
next
  show "get env pos (snd (get env pos r)) = get env pos r"
  proof (cases "get env pos r")
    case (Pair x r')
    show ?thesis
    proof (cases x)
      case (Inl e)
      with Pair get_error have "r' = r" by blast
      with Pair show ?thesis by simp
    next
      case (Inr v)
      with Pair have g: "get env pos r = (Inr v, r')" by simp
      have "get env pos r' = (Inr v, r')"
        using get_result [OF g] by (simp add: get_hit)
      with g show ?thesis by simp
    qed
  qed
qed

theorem C8_get_memoized_witness:
  "get env0 3 row0 =
     (Inr \<lparr>get_type = VNATIVE, m_str = [], m_val = Some 0\<rparr>,
      row0\<lparr>m_vals := [3 \<mapsto> \<lparr>get_type = VNATIVE, m_str = [], m_val = Some 0\<rparr>]\<rparr>) \<and>
   get env1 3 (row0\<lparr>m_vals := [3 \<mapsto> \<lparr>get_type = VNATIVE, m_str = [], m_val = Some 0\<rparr>]\<rparr>) =
     (Inr \<lparr>get_type = VNATIVE, m_str = [], m_val = Some 0\<rparr>,
      row0\<lparr>m_vals := [3 \<mapsto> \<lparr>get_type = VNATIVE, m_str = [], m_val = Some 0\<rparr>]\<rparr>)"
proof -
  have g: "get env0 3 row0 =
     (Inr \<lparr>get_type = VNATIVE, m_str = [], m_val = Some 0\<rparr>,
      row0\<lparr>m_vals := [3 \<mapsto> \<lparr>get_type = VNATIVE, m_str = [], m_val = Some 0\<rparr>]\<rparr>)"
    by (simp add: row0_def Row_impl_ctor_def md0_def column0_def get_def map_at_def
        get_format_def convert_at_def CDK_TYPE_LIST_def get_descr_def mk_def env0_def
        emplace_def)
  from C8_get_memoized [of env0 3 row0] g show ?thesis by simp
qed

section \<open>Decoding a column of a row\<close>

lemma new_column_descr_type:
  "ti \<in> set CDK_TYPE_LIST \<Longrightarrow> descr_type (m_fmt (new_column ti fi)) = ti"
  by (cases ti) (simp_all add: CDK_TYPE_LIST_def Column_info_of_descr_def Column_info_raw_def)

lemma mk_single:
  "convert env [b] fd = Inr v \<Longrightarrow>
   mk env [b] fd = Inr (if get_type v = VNATIVE then v\<lparr>m_str := []\<rparr> else v)"
  by (cases "get_type v") (simp_all add: mk_def)

lemma get_null:
  assumes "m_mdata r = Some m" and "pos < m_col_count m" and "m_vals r pos = None"
    and "m_cols m pos = Some c" and "m_data r pos = None"
  shows "fst (get env pos r) = Inr Value_null"
  using assms
  by (simp add: get_def map_at_def get_format_def convert_at_def emplace_def)

lemma get_convert:
  assumes "m_mdata r = Some m" and "pos < m_col_count m" and "m_vals r pos = None"
    and "m_cols m pos = Some c" and "m_data r pos = Some raw" and "raw \<noteq> []"
    and "m_type c \<in> set CDK_TYPE_LIST" and "descr_type (m_fmt c) = m_type c"
    and "mk env raw (m_fmt c) = Inr v"
  shows "fst (get env pos r) = Inr v"
  using assms
  by (simp add: get_def map_at_def get_format_def convert_at_def emplace_def get_descr_def)

text \<open>
  A column whose type is not in \<open>CDK_TYPE_LIST\<close> and whose buffer is not empty:
  \<open>convert_at\<close> stores nothing and the final \<^verbatim>\<open>m_vals.at(pos)\<close> raises.
\<close>

lemma get_not_listed:
  assumes "m_mdata r = Some m" and "pos < m_col_count m" and "m_vals r pos = None"
    and "m_cols m pos = Some c" and "m_data r pos = Some raw" and "raw \<noteq> []"
    and "m_type c \<notin> set CDK_TYPE_LIST"
  shows "get env pos r = (Inl (Out_of_range ''map::at''), r)"
  using assms
  by (simp add: get_def map_at_def get_format_def convert_at_def emplace_def get_descr_def)

text \<open>
  What holds for a row that holds the meta-data the constructor built, at a position
  within the column count that is not yet decoded: without a buffer for the column
  \<open>get\<close> yields the NULL value, whatever the wire type; with a buffer of the sentinel
  byte only, \<open>get\<close> yields the raw-bytes value of no bytes for a datetime, bytes,
  geometry or xml column.
\<close>

lemma get_absent_or_sentinel_only:
  assumes ctor: "Meta_data_ctor env md = Inr m"
    and row: "m_mdata r = Some m"
    and pos: "pos < col_count r"
    and fresh: "m_vals r pos = None"
  shows "(m_data r pos = None \<longrightarrow> fst (get env pos r) = Inr Value_null) \<and>
         (\<forall>b. m_data r pos = Some [b] \<and>
               cdk_type md pos \<in> {TYPE_DATETIME, TYPE_BYTES, TYPE_GEOMETRY, TYPE_XML} \<longrightarrow>
               fst (get env pos r) = Inr (Value_raw []))"
proof -
  from pos row have p: "pos < m_col_count m" by (simp add: col_count_def)
  with Meta_data_ctor_cols(1) [OF ctor] have "pos < cdk_col_count md" by simp
  from Meta_data_ctor_cols(2) [OF ctor this] obtain c where
    c: "m_cols m pos = Some c" and ty: "m_type c = cdk_type md pos"
    and fmt: "m_fmt c = m_fmt (new_column (cdk_type md pos) (cdk_format md pos))"
    by blast
  have raw: "fst (get env pos r) = Inr (Value_raw [])"
    if d: "m_data r pos = Some [b]"
      and t: "cdk_type md pos \<in> {TYPE_DATETIME, TYPE_BYTES, TYPE_GEOMETRY, TYPE_XML}" for b
  proof (rule get_convert [OF row p fresh c d])
    from t have l: "cdk_type md pos \<in> set CDK_TYPE_LIST" by (auto simp: CDK_TYPE_LIST_def)
    show "[b] \<noteq> []" by simp
    show "m_type c \<in> set CDK_TYPE_LIST" using l ty by simp
    show "descr_type (m_fmt c) = m_type c" using l ty fmt by (simp add: new_column_descr_type)
    from t have "cdk_type md pos \<notin> {TYPE_STRING, TYPE_INTEGER, TYPE_FLOAT, TYPE_DOCUMENT}" by auto
    then have "convert env [b] (m_fmt c) = Inr (Value_raw [])"
      by (simp add: fmt new_column_no_codec convert_generic_nonempty)
    then show "mk env [b] (m_fmt c) = Inr (Value_raw [])"
      by (simp add: mk_single Value_raw_def)
  qed
  have null: "fst (get env pos r) = Inr Value_null" if "m_data r pos = None"
    using get_null [OF row p fresh c that] .
  from null raw show ?thesis by blast
qed

text \<open>
  C2, at the input where the code departs from it. The meta-data constructor stores
  the column at position 2, whose type code is outside \<open>CDK_TYPE_LIST\<close>, as a
  raw-bytes column (\<^verbatim>\<open>add_raw\<close> in its \<^verbatim>\<open>default\<close> branch), and on that
  descriptor \<open>convert\<close> turns the sentinel-only buffer into the empty raw-bytes value.
  The \<^verbatim>\<open>switch\<close> of \<open>convert_at\<close> has no \<^verbatim>\<open>default\<close>: nothing is stored for the
  column, and \<open>get\<close> raises \<^verbatim>\<open>std::out_of_range\<close> at an in-range position instead
  of yielding a non-NULL empty value.
\<close>

theorem C2_get_unlisted_type_raises:
  "Meta_data_ctor env0 cmd0 = Inr md0 \<and> m_mdata row1 = Some md0 \<and> 2 < col_count row1 \<and>
   cdk_type cmd0 2 = TYPE_OTHER 99 \<and> m_data row1 2 = Some [0] \<and>
   get env0 2 row1 = (Inl (Out_of_range ''map::at''), row1) \<and>
   map_option m_fmt (m_cols md0 2) = Some (FD_BYTES 0) \<and>
   convert env0 [0] (FD_BYTES 0) = Inr (Value_raw [])"
proof -
  have g: "get env0 2 row1 = (Inl (Out_of_range ''map::at''), row1)"
    by (simp add: row1_def Row_impl_ctor_def md0_def column0_def get_def map_at_def
        get_format_def convert_at_def CDK_TYPE_LIST_def)
  have r: "m_mdata row1 = Some md0 \<and> 2 < col_count row1 \<and>
     cdk_type cmd0 2 = TYPE_OTHER 99 \<and> m_data row1 2 = Some [0]"
    by (simp add: row1_def Row_impl_ctor_def col_count_def md0_def cmd0_def)
  have s: "map_option m_fmt (m_cols md0 2) = Some (FD_BYTES 0) \<and>
     convert env0 [0] (FD_BYTES 0) = Inr (Value_raw [])"
    by (simp add: md0_def column0_def convert_generic_def)
  from g r s md0_built show ?thesis by simp
qed

section \<open>The result object of the connector\<close>

lemma init_error_entries:
  assumes "m_reply_Impl s = Some rep" and "0 < entry_count ERROR rep"
  shows "init s = s"
  using assms by (simp add: init_def)

text \<open>
  C7. When the reply reports one or more error entries, the constructor of
  \<^verbatim>\<open>Result::Impl\<close> returns from \<open>init\<close> at once: the object keeps the reply,
  acquires no cursor and reads no rows, and raises nothing. Without a cursor there is
  no meta-data to consult: \<open>getString\<close> raises \<^verbatim>\<open>empty row\<close> for every position.
\<close>

theorem C7_error_entries_no_data:
  assumes "0 < entry_count ERROR rep"
  shows "Impl_ctor (Some rep) guid =
           \<lparr>m_reply_Impl = Some rep, m_cursor_Impl = None, m_rows = Map.empty, m_pos = 0,
            m_guid = guid\<rparr> \<and>
         getString pos (Impl_ctor (Some rep) guid) = Inl (Thrown ''empty row'')"
  using assms by (simp add: Impl_ctor_def init_def getString_def)

theorem C7_error_entries_no_data_witness:
  "0 < entry_count ERROR reply_err \<and> has_results reply_err \<and>
   m_cursor_Impl (Impl_ctor (Some reply_err) ''g'') = None \<and>
   m_rows (Impl_ctor (Some reply_err) ''g'') = Map.empty \<and>
   m_reply_Impl (Impl_ctor (Some reply_err) ''g'') = Some reply_err"
proof -
  have h: "0 < entry_count ERROR reply_err"
    by (simp add: entry_count_def reply_err_def)
  from C7_error_entries_no_data [OF h, of "''g''" 0] h show ?thesis
    by (simp add: reply_err_def reply0_def)
qed

text \<open>
  The range checks of the lookups. \<open>get\<close> and \<open>get_bytes\<close> of a row with meta-data
  raise \<^verbatim>\<open>std::out_of_range\<close> from the column count on; \<open>getString\<close> raises only
  beyond the column count.
\<close>

lemma get_out_of_range:
  "m_mdata r = Some m \<Longrightarrow> m_col_count m \<le> pos \<Longrightarrow>
   get env pos r = (Inl (Out_of_range ''row column''), r)"
  by (simp add: get_def)

lemma get_bytes_out_of_range:
  "m_mdata r = Some m \<Longrightarrow> m_col_count m \<le> pos \<Longrightarrow>
   get_bytes pos r = Inl (Out_of_range ''row column'')"
  by (simp add: get_bytes_def)

lemma getString_at_col_count:
  "m_cursor_Impl s = Some c \<Longrightarrow>
   getString (cdk_col_count (cur_md c)) s \<noteq> Inl (Thrown ''pos out of range'')"
  by (auto simp: getString_def map_at_def c_str_def Let_def
      split: option.splits sum.splits if_splits)

lemma getString_beyond:
  "m_cursor_Impl s = Some c \<Longrightarrow> cdk_col_count (cur_md c) < pos \<Longrightarrow>
   getString pos s = Inl (Thrown ''pos out of range'')"
  by (simp add: getString_def)

text \<open>
  Within the range \<open>getString\<close> writes the type and the field: the string column of
  the one row holds the byte \<open>a\<close> and the sentinel.
\<close>

lemma getString_in_range:
  "getString 0 (Impl_ctor (Some reply0) ''g'') =
     Inr (''STRING: '' @ [CHR 0x22] @ ''a'' @ [CHR 0x22])"
  by (simp add: impl0 getString_def cursor0_def map_at_def type_prefix_def CDK_TYPE_LIST_def
      c_str_def char_of_def bit_0)

text \<open>
  C3, at the input where the code departs from it. The result has one column; the
  position 1 is outside \<open>[0, 1)\<close>. The check of \<open>getString\<close> is
  \<^verbatim>\<open>pos > col_count\<close>, so the position passes it, the field is not found in the
  row, and the call returns the string of a NULL field instead of failing.
\<close>

theorem C3_getString_at_col_count:
  "cdk_col_count (cur_md cursor0) = 1 \<and>
   getString 1 (Impl_ctor (Some reply0) ''g'') = Inr ''STRING: <null>''"
  by (simp add: impl0 getString_def cursor0_def map_at_def type_prefix_def CDK_TYPE_LIST_def)

lemma Impl_dtor_both:
  "m_reply_Impl s = Some rep \<Longrightarrow> m_cursor_Impl s = Some c \<Longrightarrow>
   Impl_dtor s = [Release_reply, Release_cursor]"
  by (simp add: Impl_dtor_def)

text \<open>
  C6, at the input where the code departs from it. The object was constructed from a
  reply with a result, so it holds both the reply and the cursor opened on it; its
  destructor releases the reply first and the cursor after it.
\<close>

theorem C6_dtor_releases_reply_first:
  "Impl_dtor (Impl_ctor (Some reply0) ''g'') = [Release_reply, Release_cursor]"
  by (simp add: impl0 Impl_dtor_def)

section \<open>The result object\<close>

text \<open>
  C4, as amended. The three queries fail with their empty-result error exactly when the
  object holds no reply (a null \<open>m_reply\<close>); when it holds a reply they return what
  the reply reports, whether or not a result has been prepared (\<open>m_inited\<close> is not
  consulted).
\<close>

theorem C4_facts_need_reply:
  "(m_reply s = None \<longrightarrow>
      get_affected_rows s = Inl (Error ''Attempt to get affected rows count on empty result'') \<and>
      get_auto_increment s = Inl (Error ''Attempt to get auto increment value on empty result'') \<and>
      get_warning_count s = (Inl (Error ''Attempt to get warning count for empty result''), s)) \<and>
   (\<forall>rep. m_reply s = Some rep \<longrightarrow>
      get_affected_rows s = Inr (affected_rows rep) \<and>
      get_auto_increment s = Inr (last_insert_id rep) \<and>
      fst (get_warning_count s) = Inr (entry_count WARNING rep))"
  by (simp add: get_affected_rows_def get_auto_increment_def get_warning_count_def)

theorem C4_facts_need_reply_witness:
  "m_reply (Result_impl_base_ctor None :: nat Result_impl_base) = None \<and>
   get_affected_rows (Result_impl_base_ctor None :: nat Result_impl_base) =
     Inl (Error ''Attempt to get affected rows count on empty result'') \<and>
   m_reply res0 = Some reply0 \<and> get_affected_rows res0 = Inr 1 \<and>
   get_auto_increment res0 = Inr 0 \<and> fst (get_warning_count res0) = Inr 0"
proof -
  have a: "m_reply (Result_impl_base_ctor None :: nat Result_impl_base) = None"
    by (simp add: Result_impl_base_ctor_def)
  have b: "m_reply res0 = Some reply0"
    by (simp add: res0_def res_new_def Result_impl_base_ctor_def)
  have c: "affected_rows reply0 = 1" "last_insert_id reply0 = 0" "entry_count WARNING reply0 = 0"
    by (simp_all add: reply0_def entry_count_def)
  from C4_facts_need_reply [of "Result_impl_base_ctor None :: nat Result_impl_base"]
    C4_facts_need_reply [of res0] a b c
  show ?thesis by simp
qed

theorem C4_before_next_result_counterexample:
  "m_inited res_new = False \<and> m_reply res_new = Some reply0 \<and>
   get_affected_rows res_new = Inr 1 \<and> get_auto_increment res_new = Inr 0 \<and>
   fst (get_warning_count res_new) = Inr 0"
  by (simp add: res_new_def Result_impl_base_ctor_def get_affected_rows_def
      get_auto_increment_def get_warning_count_def reply0_def entry_count_def)

lemma process_frame:
  "m_cursor (process s e) = m_cursor s"
  by (cases e) (simp_all add: row_begin_def field_begin_def field_data_def row_end_def end_of_data_def)

lemma process_cache_size:
  "m_row_cache_size s = length (m_row_cache s) \<Longrightarrow>
   m_row_cache_size (process s e) = length (m_row_cache (process s e))"
  by (cases e) (simp_all add: row_begin_def field_begin_def field_data_def row_end_def end_of_data_def)

lemma deliver_frame:
  "m_cursor (snd (deliver n es s)) = m_cursor s"
  by (induction es arbitrary: s) (simp_all add: Let_def process_frame)

lemma deliver_cache_size:
  "m_row_cache_size s = length (m_row_cache s) \<Longrightarrow>
   m_row_cache_size (snd (deliver n es s)) = length (m_row_cache (snd (deliver n es s)))"
  by (induction es arbitrary: s) (simp_all add: Let_def process_cache_size)

lemma deliver_unbounded: "deliver 0 es s = ([], foldl process s es)"
  by (induction es arbitrary: s) simp_all

lemma load_cache_size:
  assumes "m_row_cache_size s = length (m_row_cache s)"
  shows "m_row_cache_size (snd (load_cache n s)) = length (m_row_cache (snd (load_cache n s)))"
proof (cases "m_row_cache s \<noteq> [] \<or> m_cursor s = None")
  case True
  with assms show ?thesis by (auto simp: load_cache_def)
next
  case False
  then obtain c where c: "m_cursor s = Some c" and e: "m_row_cache s = []" by auto
  obtain rest s' where d: "deliver n (cur_rows c) s = (rest, s')" by (cases "deliver n (cur_rows c) s")
  with deliver_cache_size [OF assms, of n "cur_rows c"]
  have "m_row_cache_size s' = length (m_row_cache s')" by simp
  with c e d show ?thesis by (simp add: load_cache_def)
qed

lemma store_drained:
  assumes "m_row_cache s = []" and "m_cursor s = Some c"
  shows "m_cursor (store s) = Some (c\<lparr>cur_rows := []\<rparr>)"
  using assms by (simp add: store_def load_cache_def deliver_unbounded)

lemma store_idem: "store (store s) = store s"
proof (cases "m_row_cache s \<noteq> [] \<or> m_cursor s = None")
  case True
  then show ?thesis by (auto simp: store_def load_cache_def)
next
  case False
  then obtain c where c: "m_cursor s = Some c" and e: "m_row_cache s = []" by auto
  let ?s1 = "store s"
  have s1: "?s1 = (foldl process s (cur_rows c))\<lparr>m_cursor := Some (c\<lparr>cur_rows := []\<rparr>)\<rparr>"
    using c e by (simp add: store_def load_cache_def deliver_unbounded)
  have cur: "m_cursor ?s1 = Some (c\<lparr>cur_rows := []\<rparr>)" by (simp add: s1)
  show ?thesis
  proof (cases "m_row_cache ?s1 = []")
    case False
    then show ?thesis by (simp add: store_def [of ?s1] load_cache_def)
  next
    case True
    have "?s1\<lparr>m_cursor := Some (c\<lparr>cur_rows := []\<rparr>)\<rparr> = ?s1"
      using cur by (cases ?s1) simp
    with True cur show ?thesis
      by (simp add: store_def [of ?s1] load_cache_def)
  qed
qed

text \<open>
  \<open>count\<close> is \<open>store\<close> followed by returning \<open>m_row_cache_size\<close>; when that counter
  equals the number of cached rows, as it does from construction on, this is the spec's
  \<open>count_spec\<close>. After one \<open>store\<close>, \<open>count\<close> returns the same number on every call
  and leaves the object as it is, the calls that the cursor has not yet delivered
  included. A \<open>store\<close> on an empty cache leaves the cursor nothing to deliver.
\<close>

lemma count_after_store:
  "(m_row_cache_size s = length (m_row_cache s) \<longrightarrow> count s = count_spec s) \<and>
   count s = (m_row_cache_size (store s), store s) \<and>
   count (store s) = (m_row_cache_size (store s), store s) \<and>
   count (snd (count (store s))) = (m_row_cache_size (store s), store s) \<and>
   (\<forall>c. m_row_cache s = [] \<and> m_cursor s = Some c \<longrightarrow>
        m_cursor (store s) = Some (c\<lparr>cur_rows := []\<rparr>))"
proof (intro conjI impI allI)
  fix c assume "m_row_cache s = [] \<and> m_cursor s = Some c"
  then show "m_cursor (store s) = Some (c\<lparr>cur_rows := []\<rparr>)"
    by (simp add: store_drained)
next
  assume "m_row_cache_size s = length (m_row_cache s)"
  from load_cache_size [OF this, of 0] show "count s = count_spec s"
    by (simp add: count_def count_spec_def store_def Let_def)
next
  show "count s = (m_row_cache_size (store s), store s)"
    by (simp add: count_def Let_def)
next
  show a: "count (store s) = (m_row_cache_size (store s), store s)"
    by (simp add: count_def Let_def store_idem)
  then show "count (snd (count (store s))) = (m_row_cache_size (store s), store s)"
    by simp
qed

lemma res3_prefetched_eq:
  "load_cache 1 res3 =
     (True,
      res3\<lparr>m_cursor := Some (cursor3\<lparr>cur_rows :=
               [Row_begin 1, Field_begin 0 2, Field_data 0 [98, 0], Field_end 0, Row_end 1,
                Row_begin 2, Field_begin 0 2, Field_data 0 [99, 0], Field_end 0, Row_end 2,
                End_of_data]\<rparr>),
            m_row_cache := [[0 \<mapsto> [97, 0]]], m_row_cache_size := 1,
            m_row := [0 \<mapsto> [97, 0]]\<rparr>)"
  by (simp add: load_cache_def res3_def res_new_def Result_impl_base_ctor_def cursor3_def
      cursor0_def row_begin_def field_begin_def field_data_def row_end_def emplace_def)


text \<open>
  C5, at the input where the code departs from it. \<open>store\<close> is an unbounded
  \<open>load_cache\<close>, which returns at once when the cache holds rows. After a load bounded
  to one row of a result with three, the cache holds one row and the cursor has two
  rows left; \<open>store\<close> changes nothing, and \<open>count\<close> returns 1 with the two rows still
  to be delivered, so the transport is not drained and the number is not that of the
  remaining rows.
\<close>

theorem C5_store_leaves_rows_pending:
  "fst (load_cache 1 res3) = True \<and>
   m_row_cache res3_prefetched = [[0 \<mapsto> [97, 0]]] \<and>
   m_pending_rows res3_prefetched = True \<and>
   map_option cur_rows (m_cursor res3_prefetched) =
     Some [Row_begin 1, Field_begin 0 2, Field_data 0 [98, 0], Field_end 0, Row_end 1,
           Row_begin 2, Field_begin 0 2, Field_data 0 [99, 0], Field_end 0, Row_end 2,
           End_of_data] \<and>
   store res3_prefetched = res3_prefetched \<and>
   count res3_prefetched = (1, res3_prefetched)"
proof -
  have c: "m_row_cache res3_prefetched = [[0 \<mapsto> [97, 0]]]"
    and n: "m_row_cache_size res3_prefetched = 1"
    and p: "m_pending_rows res3_prefetched = True"
    and r: "map_option cur_rows (m_cursor res3_prefetched) =
     Some [Row_begin 1, Field_begin 0 2, Field_data 0 [98, 0], Field_end 0, Row_end 1,
           Row_begin 2, Field_begin 0 2, Field_data 0 [99, 0], Field_end 0, Row_end 2,
           End_of_data]"
    unfolding res3_prefetched_def res3_prefetched_eq
    by (simp_all add: res3_def res_new_def Result_impl_base_ctor_def)
  have s: "store res3_prefetched = res3_prefetched"
    by (simp add: store_def load_cache_def c)
  have f: "fst (load_cache 1 res3) = True"
    unfolding res3_prefetched_eq by simp
  from c n p r s f show ?thesis
    by (simp add: count_def)
qed

end
